theory Spec2Isabelle
  imports Main "HOL-Library.AList"
begin

section \<open>Collection serializers of \<open>olympia.bandwagon\<close>\<close>

text \<open>
  A shallow embedding of \<^verbatim>\<open>src/olympia/bandwagon/serializers.py\<close>. Every \<^verbatim>\<open>raise\<close>
  of the source is a branch returning \<open>Inl\<close>; a method that returns normally returns
  \<open>Inr\<close>. Collaborators imported from modules outside the file (the denylist, the link
  detector, the spam service, the feature switches) are parameters of the functions that
  call them.
\<close>

subsection \<open>Errors and values\<close>

datatype error = ValidationError string

text \<open>
  A translated field (\<^verbatim>\<open>TranslationSerializerField\<close>) carries either one text or a
  dictionary from locale to value. The dictionary is an association list in iteration
  order; a Python dictionary has no duplicate keys.
\<close>

datatype trans_value = Text string | Dict "(string \<times> trans_value) list"

subsection \<open>\<^verbatim>\<open>str.strip\<close>\<close>

text \<open>
  The whitespace of Python's text type among the code points below 256, which is what an
  Isabelle \<open>char\<close> can hold: tab to carriage return, the four separators \<open>0x1C\<close> to
  \<open>0x1F\<close>, the space, \<open>0x85\<close> and \<open>0xA0\<close>.
\<close>

definition isspace :: "char \<Rightarrow> bool" where
  "isspace c =
     (let n = (of_char c :: nat)
      in (9 \<le> n \<and> n \<le> 13) \<or> (28 \<le> n \<and> n \<le> 32) \<or> n = 133 \<or> n = 160)"

definition strip :: "string \<Rightarrow> string" where
  "strip s = rev (dropWhile isspace (rev (dropWhile isspace s)))"

subsection \<open>\<^verbatim>\<open>CollectionSerializer\<close>: field validators\<close>

text \<open>
  \<^verbatim>\<open>validate_name\<close>. The parameter \<open>blocked\<close> is \<^verbatim>\<open>DeniedName.blocked\<close>. The dictionary
  comprehension of the source visits the entries in order and stops at the first entry
  whose validation raises.
\<close>

fun validate_name :: "(string \<Rightarrow> bool) \<Rightarrow> trans_value \<Rightarrow> error + trans_value"
  and validate_name_items ::
    "(string \<Rightarrow> bool) \<Rightarrow> (string \<times> trans_value) list \<Rightarrow> error + (string \<times> trans_value) list"
where
  "validate_name blocked (Dict items) =
     (case validate_name_items blocked items of
        Inl e \<Rightarrow> Inl e
      | Inr items' \<Rightarrow> Inr (Dict items'))"
| "validate_name blocked (Text v) =
     (if strip v = '''' then Inl (ValidationError ''Name cannot be empty.'')
      else if blocked v then Inl (ValidationError ''This name cannot be used.'')
      else Inr (Text v))"
| "validate_name_items blocked [] = Inr []"
| "validate_name_items blocked ((locale, sub_value) # rest) =
     (case validate_name blocked sub_value of
        Inl e \<Rightarrow> Inl e
      | Inr v' \<Rightarrow>
          (case validate_name_items blocked rest of
             Inl e \<Rightarrow> Inl e
           | Inr rest' \<Rightarrow> Inr ((locale, v') # rest')))"

text \<open>
  \<^verbatim>\<open>six.text_type(value)\<close>: a text is itself; for a dictionary it is the dictionary's
  printed form, computed by the parameter \<open>dict_repr\<close>.
\<close>

definition text_type ::
  "((string \<times> trans_value) list \<Rightarrow> string) \<Rightarrow> trans_value \<Rightarrow> string" where
  "text_type dict_repr v = (case v of Text s \<Rightarrow> s | Dict items \<Rightarrow> dict_repr items)"

text \<open>
  \<^verbatim>\<open>validate_description\<close>. The parameters \<open>clean_nl\<close> and \<open>has_links\<close> are the functions
  of those names imported from \<^verbatim>\<open>olympia.amo.utils\<close>.
\<close>

definition validate_description ::
  "(string \<Rightarrow> string) \<Rightarrow> (string \<Rightarrow> bool) \<Rightarrow> ((string \<times> trans_value) list \<Rightarrow> string) \<Rightarrow>
   trans_value \<Rightarrow> error + trans_value" where
  "validate_description clean_nl has_links dict_repr v =
     (if has_links (clean_nl (text_type dict_repr v))
      then Inl (ValidationError ''No links are allowed.'')
      else Inr v)"

text \<open>
  Modelled from the spec: \<^verbatim>\<open>slug_validator\<close> of \<^verbatim>\<open>olympia.amo.utils\<close>, which is not
  among the sources. The spec gives the grammar as letters, digits, underscore and
  hyphen, with the case preserved, and the failure as a \<^verbatim>\<open>ValidationError\<close> carrying the
  message passed in. Letters and digits are read as the ASCII ones and a slug as one or
  more such characters. With \<open>lower\<close> set the value must not hold an upper-case
  letter; this module always passes \<^verbatim>\<open>lower=False\<close>.
\<close>

definition is_upper :: "char \<Rightarrow> bool" where
  "is_upper c = (let n = (of_char c :: nat) in 65 \<le> n \<and> n \<le> 90)"

definition is_lower :: "char \<Rightarrow> bool" where
  "is_lower c = (let n = (of_char c :: nat) in 97 \<le> n \<and> n \<le> 122)"

definition is_digit :: "char \<Rightarrow> bool" where
  "is_digit c = (let n = (of_char c :: nat) in 48 \<le> n \<and> n \<le> 57)"

definition slug_char :: "char \<Rightarrow> bool" where
  "slug_char c = (is_upper c \<or> is_lower c \<or> is_digit c \<or> c = CHR ''_'' \<or> c = CHR ''-'')"

definition slug_grammar :: "bool \<Rightarrow> string \<Rightarrow> bool" where
  "slug_grammar lower s =
     (s \<noteq> [] \<and> list_all slug_char s \<and> (lower \<longrightarrow> \<not> list_ex is_upper s))"

definition slug_validator :: "string \<Rightarrow> bool \<Rightarrow> string \<Rightarrow> error + unit" where
  "slug_validator s lower message =
     (if slug_grammar lower s then Inr () else Inl (ValidationError message))"

text \<open>\<^verbatim>\<open>validate_slug\<close>; \<open>blocked\<close> is \<^verbatim>\<open>DeniedName.blocked\<close> again.\<close>

definition validate_slug :: "(string \<Rightarrow> bool) \<Rightarrow> string \<Rightarrow> error + string" where
  "validate_slug blocked v =
     (case slug_validator v False
             ''The custom URL must consist of letters, numbers, underscores or hyphens.'' of
        Inl e \<Rightarrow> Inl e
      | Inr _ \<Rightarrow>
          (if blocked v then Inl (ValidationError ''This custom URL cannot be used.'')
           else Inr v))"

subsection \<open>The \<^verbatim>\<open>Meta\<close> classes: field lists\<close>

text \<open>
  \<^verbatim>\<open>read_only_fields\<close> is built from a Python set, whose order is not fixed, so it is a
  set here. \<^verbatim>\<open>CollectionWithAddonsSerializer.Meta\<close> inherits from
  \<^verbatim>\<open>CollectionSerializer.Meta\<close> and assigns \<^verbatim>\<open>fields\<close> and \<^verbatim>\<open>read_only_fields\<close> again;
  \<^verbatim>\<open>writeable_fields\<close> is the inherited one. The attribute \<^verbatim>\<open>fields\<close> is \<open>fields'\<close>
  here, the unprimed name being taken by the record package.
\<close>

record Meta =
  fields' :: "string list"
  writeable_fields :: "string list"
  read_only_fields :: "string set"

definition CollectionSerializer_Meta :: Meta where
  "CollectionSerializer_Meta =
     (let fs = [''id'', ''uuid'', ''url'', ''addon_count'', ''author'', ''description'',
                ''modified'', ''name'', ''slug'', ''public'', ''default_locale''];
          ws = [''description'', ''name'', ''slug'', ''public'', ''default_locale'']
      in \<lparr>fields' = fs, writeable_fields = ws, read_only_fields = set fs - set ws\<rparr>)"

definition CollectionAddonSerializer_Meta :: Meta where
  "CollectionAddonSerializer_Meta =
     (let fs = [''addon'', ''notes'', ''collection''];
          ws = [''notes'']
      in \<lparr>fields' = fs, writeable_fields = ws, read_only_fields = set fs - set ws\<rparr>)"

definition CollectionWithAddonsSerializer_Meta :: Meta where
  "CollectionWithAddonsSerializer_Meta =
     (let fs = fields' CollectionSerializer_Meta @ [''addons'']
      in CollectionSerializer_Meta
           \<lparr>fields' := fs,
            read_only_fields := set fs - set (writeable_fields CollectionSerializer_Meta)\<rparr>)"

subsection \<open>The \<^verbatim>\<open>Meta\<close> classes: uniqueness validators\<close>

type_synonym 'v row = "string \<rightharpoonup> 'v"

text \<open>
  Modelled from the spec: \<^verbatim>\<open>UniqueTogetherValidator\<close> of \<^verbatim>\<open>rest_framework.validators\<close>,
  which is not among the sources. The spec asks that the listed fields, taken together,
  be unique across all existing rows, and that a candidate repeating the combination of
  a stored row fail with the validator's message. The stored rows are the query set.
\<close>

definition UniqueTogetherValidator ::
  "'v row list \<Rightarrow> string \<Rightarrow> string list \<Rightarrow> 'v row \<Rightarrow> error + unit" where
  "UniqueTogetherValidator queryset message flds attrs =
     (if list_ex (\<lambda>r. list_all (\<lambda>f. r f = attrs f) flds) queryset
      then Inl (ValidationError message)
      else Inr ())"

text \<open>The two instances declared in \<^verbatim>\<open>Meta.validators\<close>, with their messages and fields.\<close>

definition CollectionSerializer_unique :: "'v row list \<Rightarrow> 'v row \<Rightarrow> error + unit" where
  "CollectionSerializer_unique queryset =
     UniqueTogetherValidator queryset
       ''This custom URL is already in use by another one of your collections.''
       [''slug'', ''author'']"

definition CollectionAddonSerializer_unique :: "'v row list \<Rightarrow> 'v row \<Rightarrow> error + unit" where
  "CollectionAddonSerializer_unique queryset =
     UniqueTogetherValidator queryset
       ''This add-on already belongs to the collection''
       [''addon'', ''collection'']"

text \<open>
  Modelled from the spec: the request flow around a serializer, which belongs to the
  framework. Validation runs first; a row is written only when it did not fail.
\<close>

definition create_row ::
  "('v row list \<Rightarrow> 'v row \<Rightarrow> error + unit) \<Rightarrow> 'v row list \<Rightarrow> 'v row \<Rightarrow>
   (error + unit) \<times> 'v row list" where
  "create_row validator rows attrs =
     (case validator rows attrs of
        Inl e \<Rightarrow> (Inl e, rows)
      | Inr _ \<Rightarrow> (Inr (), rows @ [attrs]))"

subsection \<open>\<^verbatim>\<open>CollectionAddonSerializer\<close>\<close>

text \<open>A Python dictionary whose order matters is an association list without repeated keys.\<close>

type_synonym 'v pydict = "(string \<times> 'v) list"

text \<open>
  \<^verbatim>\<open>validate\<close>. \<^verbatim>\<open>data.pop('addon', None)\<close> removes the key when it is there and does
  nothing otherwise. The method of the base class, reached through \<^verbatim>\<open>super\<close>, hands its
  argument back.
\<close>

definition super_validate :: "'v pydict \<Rightarrow> error + 'v pydict" where
  "super_validate attrs = Inr attrs"

definition validate :: "bool \<Rightarrow> 'v pydict \<Rightarrow> error + 'v pydict" where
  "validate partial data =
     super_validate (if partial then AList.delete ''addon'' data else data)"

text \<open>
  Modelled from the spec: the framework's update of a stored row, which sets every
  validated attribute on the row and leaves the others as they were.
\<close>

definition update :: "'v row \<Rightarrow> 'v pydict \<Rightarrow> 'v row" where
  "update inst validated_data = fold (\<lambda>(attr, v) r. r(attr \<mapsto> v)) validated_data inst"

datatype json =
  JNull | JBool bool | JInt int | JString string | JList "json list"
  | JObject "(string \<times> json) list"

text \<open>
  \<^verbatim>\<open>to_representation\<close>. The base class renders the fields declared in \<^verbatim>\<open>Meta.fields\<close>,
  each by its own field class (the parameter \<open>field_repr\<close>), except the hidden field
  \<^verbatim>\<open>collection\<close>, which is only an input. \<^verbatim>\<open>out['downloads'] = 0\<close> replaces the entry of
  that key or appends one. The parameter \<open>is_gate_active\<close> is the function of that name
  imported from \<^verbatim>\<open>olympia.api.utils\<close>; the request found in the context may be missing.
\<close>

definition super_to_representation :: "(string \<Rightarrow> 'i \<Rightarrow> json) \<Rightarrow> 'i \<Rightarrow> json pydict" where
  "super_to_representation field_repr inst =
     map (\<lambda>f. (f, field_repr f inst))
       (filter (\<lambda>f. f \<noteq> ''collection'') (fields' CollectionAddonSerializer_Meta))"

definition to_representation ::
  "('q \<Rightarrow> string \<Rightarrow> bool) \<Rightarrow> (string \<Rightarrow> 'i \<Rightarrow> json) \<Rightarrow> 'q option \<Rightarrow> 'i \<Rightarrow> json pydict" where
  "to_representation is_gate_active field_repr request inst =
     (let out = super_to_representation field_repr inst
      in case request of
           None \<Rightarrow> out
         | Some req \<Rightarrow>
             (if is_gate_active req ''collections-downloads-shim''
              then AList.update ''downloads'' (JInt 0) out
              else out))"

subsection \<open>\<^verbatim>\<open>CollectionAkismetSpamValidator\<close>\<close>

record 'u request =
  user :: 'u
  META :: "string \<rightharpoonup> string"

text \<open>
  The collaborators of the validator: the report builder of \<^verbatim>\<open>.utils\<close>, the check each
  report makes against the spam service, the feature switches of \<^verbatim>\<open>waffle\<close>, and the
  JSON serialisation of the reports.
\<close>

record ('u, 'c, 'v, 'r) akismet =
  get_collection_akismet_reports ::
    "'u option \<Rightarrow> string option \<Rightarrow> string option \<Rightarrow> 'c option \<Rightarrow> 'v pydict \<Rightarrow> 'r list"
  comment_check :: "'r \<Rightarrow> bool"
  switch_is_active :: "string \<Rightarrow> bool"
  object_serialize :: "'r list \<Rightarrow> string"

text \<open>
  \<^verbatim>\<open>__call__\<close>. The state is the queue of the background tasks: each call of
  \<^verbatim>\<open>save_akismet_report.delay\<close> appends its argument. \<open>flds\<close> is \<^verbatim>\<open>self.fields\<close>,
  \<open>req\<close> the request of the serializer's context and \<open>inst\<close> the serializer's
  instance, both of which may be missing.
\<close>

definition CollectionAkismetSpamValidator_call ::
  "('u, 'c, 'v, 'r) akismet \<Rightarrow> string list \<Rightarrow> 'u request option \<Rightarrow> 'c option \<Rightarrow>
   'v pydict \<Rightarrow> string list \<Rightarrow> (error + unit) \<times> string list" where
  "CollectionAkismetSpamValidator_call ext flds req inst attrs queue =
     (let data = filter (\<lambda>(prop, v). prop \<in> set flds) attrs
      in if data = [] then (Inr (), queue)
         else
           let request_meta = (case req of None \<Rightarrow> Map.empty | Some r \<Rightarrow> META r);
               reports = get_collection_akismet_reports ext
                           (map_option user req)
                           (request_meta ''HTTP_USER_AGENT'')
                           (request_meta ''HTTP_REFERER'')
                           inst data;
               raise_if_spam = switch_is_active ext ''akismet-collection-action''
           in if list_ex (comment_check ext) reports
              then (if raise_if_spam
                    then (Inl (ValidationError ''The text entered has been flagged as spam.''),
                          queue @ [object_serialize ext reports])
                    else (Inr (), queue))
              else (Inr (), queue))"

text \<open>
  The instance in \<^verbatim>\<open>CollectionSerializer.Meta.validators\<close> is built with the fields
  \<^verbatim>\<open>name\<close> and \<^verbatim>\<open>description\<close>.
\<close>

definition CollectionSerializer_spam ::
  "('u, 'c, 'v, 'r) akismet \<Rightarrow> 'u request option \<Rightarrow> 'c option \<Rightarrow>
   'v pydict \<Rightarrow> string list \<Rightarrow> (error + unit) \<times> string list" where
  "CollectionSerializer_spam ext =
     CollectionAkismetSpamValidator_call ext [''name'', ''description'']"

text \<open>
  The reports the validator obtains for a submission, and whether the spam service flags
  one of them.
\<close>

definition spam_reports ::
  "('u, 'c, 'v, 'r) akismet \<Rightarrow> string list \<Rightarrow> 'u request option \<Rightarrow> 'c option \<Rightarrow>
   'v pydict \<Rightarrow> 'r list" where
  "spam_reports ext flds req inst attrs =
     (let request_meta = (case req of None \<Rightarrow> Map.empty | Some r \<Rightarrow> META r)
      in get_collection_akismet_reports ext
           (map_option user req)
           (request_meta ''HTTP_USER_AGENT'')
           (request_meta ''HTTP_REFERER'')
           inst (filter (\<lambda>(prop, v). prop \<in> set flds) attrs))"

definition flagged_as_spam ::
  "('u, 'c, 'v, 'r) akismet \<Rightarrow> string list \<Rightarrow> 'u request option \<Rightarrow> 'c option \<Rightarrow>
   'v pydict \<Rightarrow> bool" where
  "flagged_as_spam ext flds req inst attrs =
     (filter (\<lambda>(prop, v). prop \<in> set flds) attrs \<noteq> [] \<and>
      list_ex (comment_check ext) (spam_reports ext flds req inst attrs))"

section \<open>Properties\<close>

subsection \<open>Auxiliary facts\<close>

lemma dropWhile_all_iff: "(\<forall>x\<in>set (dropWhile P xs). P x) \<longleftrightarrow> (\<forall>x\<in>set xs. P x)"
  by (induction xs) auto

lemma strip_empty_iff: "strip s = [] \<longleftrightarrow> (\<forall>c\<in>set s. isspace c)"
  by (simp add: strip_def dropWhile_all_iff)

lemma validate_name_unchanged:
  "validate_name blocked v = Inr v' \<Longrightarrow> v' = v"
  and "validate_name_items blocked items = Inr items' \<Longrightarrow> items' = items"
  by (induction blocked v and blocked items arbitrary: v' and items'
      rule: validate_name_validate_name_items.induct)
     (auto split: sum.splits if_splits)

lemma validate_name_items_find:
  "validate_name_items blocked items =
     (case find (\<lambda>(l, v). isl (validate_name blocked v)) items of
        None \<Rightarrow> Inr items
      | Some (l, v) \<Rightarrow> Inl (projl (validate_name blocked v)))"
proof (induction items)
  case Nil
  show ?case by simp
next
  case (Cons p items)
  obtain l v where p: "p = (l, v)" by (cases p)
  show ?case
  proof (cases "validate_name blocked v")
    case (Inl e)
    then show ?thesis by (simp add: p)
  next
    case (Inr v')
    then have "v' = v" by (rule validate_name_unchanged(1))
    with Inr Cons.IH show ?thesis
      by (simp add: p split: option.splits sum.splits)
  qed
qed

lemma validate_name_dict_find:
  "validate_name blocked (Dict items) =
     (case find (\<lambda>(l, v). isl (validate_name blocked v)) items of
        None \<Rightarrow> Inr (Dict items)
      | Some (l, v) \<Rightarrow> validate_name blocked v)"
proof (cases "find (\<lambda>(l, v). isl (validate_name blocked v)) items")
  case None
  then show ?thesis by (simp add: validate_name_items_find)
next
  case (Some p)
  obtain l v where p: "p = (l, v)" by (cases p)
  from Some have "isl (validate_name blocked v)"
    by (auto simp: find_Some_iff p)
  with Some show ?thesis
    by (simp add: validate_name_items_find p)
qed

lemma validate_name_items_texts:
  "validate_name_items blocked (map (\<lambda>(l, s). (l, Text s)) entries) =
     (case find (\<lambda>(l, s). (\<forall>c\<in>set s. isspace c) \<or> blocked s) entries of
        None \<Rightarrow> Inr (map (\<lambda>(l, s). (l, Text s)) entries)
      | Some (l, s) \<Rightarrow>
          (if \<forall>c\<in>set s. isspace c then Inl (ValidationError ''Name cannot be empty.'')
           else Inl (ValidationError ''This name cannot be used.'')))"
proof (induction entries)
  case Nil
  show ?case by simp
next
  case (Cons p entries)
  obtain l s where p: "p = (l, s)" by (cases p)
  from Cons.IH show ?case
    by (simp add: p strip_empty_iff split: option.splits)
qed

lemma update_apply:
  "distinct (map fst d) \<Longrightarrow>
   update inst d k = (case map_of d k of None \<Rightarrow> inst k | Some v \<Rightarrow> Some v)"
proof (induction d arbitrary: inst)
  case Nil
  show ?case by (simp add: update_def)
next
  case (Cons p d)
  obtain a b where p: "p = (a, b)" by (cases p)
  from Cons.prems have d: "distinct (map fst d)" and a: "a \<notin> fst ` set d"
    by (simp_all add: p)
  have step: "update inst (p # d) k = update (inst(a \<mapsto> b)) d k"
    by (simp add: update_def p)
  from a have none: "map_of d a = None"
    by (simp add: map_of_eq_None_iff)
  show ?case
    unfolding step Cons.IH [OF d]
    by (simp add: p none split: option.splits)
qed

subsection \<open>The spam validator\<close>

text \<open>
  C1, as the code has it. When a submission carries at least one of the validator's
  fields and the spam service flags one of the reports built for it, the outcome is
  decided by the switch \<^verbatim>\<open>akismet-collection-action\<close> alone. With the switch on, the
  serialised reports are handed to the background task and a \<^verbatim>\<open>ValidationError\<close> with
  the message "The text entered has been flagged as spam." is raised. With the switch
  off, no error is raised and nothing is queued.
\<close>

theorem spam_validator_flagged:
  assumes "flagged_as_spam ext flds req inst attrs"
  shows "CollectionAkismetSpamValidator_call ext flds req inst attrs queue =
           (if switch_is_active ext ''akismet-collection-action''
            then (Inl (ValidationError ''The text entered has been flagged as spam.''),
                  queue @ [object_serialize ext (spam_reports ext flds req inst attrs)])
            else (Inr (), queue))"
  using assms
  by (simp add: flagged_as_spam_def spam_reports_def CollectionAkismetSpamValidator_call_def
        Let_def)

theorem spam_validator_flagged_witness:
  "flagged_as_spam
     \<lparr>get_collection_akismet_reports = (\<lambda>u ua rf c data. map snd data),
      comment_check = (\<lambda>r. r = ''buy pills''),
      switch_is_active = (\<lambda>name. True),
      object_serialize = concat\<rparr>
     [''name'', ''description''] (None :: unit request option) (None :: unit option)
     [(''name'', ''buy pills''), (''slug'', ''pills'')]
   \<and> CollectionAkismetSpamValidator_call
     \<lparr>get_collection_akismet_reports = (\<lambda>u ua rf c data. map snd data),
      comment_check = (\<lambda>r. r = ''buy pills''),
      switch_is_active = (\<lambda>name. True),
      object_serialize = concat\<rparr>
     [''name'', ''description''] (None :: unit request option) (None :: unit option)
     [(''name'', ''buy pills''), (''slug'', ''pills'')] []
   = (Inl (ValidationError ''The text entered has been flagged as spam.''), [''buy pills''])"
proof -
  let ?ext = "\<lparr>get_collection_akismet_reports =
                  (\<lambda>(u :: unit option) (ua :: string option) (rf :: string option)
                     (c :: unit option) (data :: string pydict). map snd data),
                comment_check = (\<lambda>r. r = ''buy pills''),
                switch_is_active = (\<lambda>name. True),
                object_serialize = concat\<rparr>"
  have h: "flagged_as_spam ?ext [''name'', ''description''] None None
             [(''name'', ''buy pills''), (''slug'', ''pills'')]"
    by (simp add: flagged_as_spam_def spam_reports_def)
  show ?thesis
    using h spam_validator_flagged [OF h, of "[]"]
    by (simp add: spam_reports_def)
qed

text \<open>
  C1 as the spec states it fails: with the switch off, a flagged submission leaves the
  task queue as it was.
\<close>

theorem spam_validator_gate_off_counterexample:
  "flagged_as_spam
     \<lparr>get_collection_akismet_reports = (\<lambda>u ua rf c data. map snd data),
      comment_check = (\<lambda>r. r = ''buy pills''),
      switch_is_active = (\<lambda>name. False),
      object_serialize = concat\<rparr>
     [''name'', ''description''] (None :: unit request option) (None :: unit option)
     [(''name'', ''buy pills''), (''slug'', ''pills'')]
   \<and> CollectionSerializer_spam
     \<lparr>get_collection_akismet_reports = (\<lambda>u ua rf c data. map snd data),
      comment_check = (\<lambda>r. r = ''buy pills''),
      switch_is_active = (\<lambda>name. False),
      object_serialize = concat\<rparr>
     (None :: unit request option) (None :: unit option)
     [(''name'', ''buy pills''), (''slug'', ''pills'')] []
   = (Inr (), [])"
  by (simp add: flagged_as_spam_def spam_reports_def CollectionSerializer_spam_def
        CollectionAkismetSpamValidator_call_def)

subsection \<open>Uniqueness\<close>

text \<open>
  C2, as the code has it. A candidate collection whose slug and author are those of a
  stored row fails, before anything is written, with "This custom URL is already in use
  by another one of your collections."; a candidate membership whose add-on and
  collection are those of a stored row fails, before anything is written, with
  "This add-on already belongs to the collection" (the message of the code ends without
  a full stop).
\<close>

theorem unique_together_conflict:
  "(list_ex (\<lambda>r. r ''slug'' = attrs ''slug'' \<and> r ''author'' = attrs ''author'') rows \<longrightarrow>
      create_row CollectionSerializer_unique rows attrs =
        (Inl (ValidationError
           ''This custom URL is already in use by another one of your collections.''), rows))
   \<and> (list_ex (\<lambda>r. r ''addon'' = attrs ''addon'' \<and> r ''collection'' = attrs ''collection'') rows \<longrightarrow>
      create_row CollectionAddonSerializer_unique rows attrs =
        (Inl (ValidationError ''This add-on already belongs to the collection''), rows))"
  by (simp add: create_row_def CollectionSerializer_unique_def
        CollectionAddonSerializer_unique_def UniqueTogetherValidator_def)

theorem unique_together_conflict_witness:
  "list_ex (\<lambda>r. r ''slug'' = [''slug'' \<mapsto> ''mine'', ''author'' \<mapsto> ''u1''] ''slug''
              \<and> r ''author'' = [''slug'' \<mapsto> ''mine'', ''author'' \<mapsto> ''u1''] ''author'')
     [[''slug'' \<mapsto> ''mine'', ''author'' \<mapsto> ''u1'']]
   \<and> fst (create_row CollectionSerializer_unique
             [[''slug'' \<mapsto> ''mine'', ''author'' \<mapsto> ''u1'']]
             [''slug'' \<mapsto> ''mine'', ''author'' \<mapsto> ''u1'']) =
       Inl (ValidationError
         ''This custom URL is already in use by another one of your collections.'')
   \<and> list_ex (\<lambda>r. r ''addon'' = [''addon'' \<mapsto> ''a1'', ''collection'' \<mapsto> ''c7''] ''addon''
              \<and> r ''collection'' = [''addon'' \<mapsto> ''a1'', ''collection'' \<mapsto> ''c7''] ''collection'')
     [[''addon'' \<mapsto> ''a1'', ''collection'' \<mapsto> ''c7'']]
   \<and> fst (create_row CollectionAddonSerializer_unique
             [[''addon'' \<mapsto> ''a1'', ''collection'' \<mapsto> ''c7'']]
             [''addon'' \<mapsto> ''a1'', ''collection'' \<mapsto> ''c7'']) =
       Inl (ValidationError ''This add-on already belongs to the collection'')"
  using unique_together_conflict
          [where rows = "[[''slug'' \<mapsto> ''mine'', ''author'' \<mapsto> ''u1'']]"
             and attrs = "[''slug'' \<mapsto> ''mine'', ''author'' \<mapsto> ''u1'']"]
        unique_together_conflict
          [where rows = "[[''addon'' \<mapsto> ''a1'', ''collection'' \<mapsto> ''c7'']]"
             and attrs = "[''addon'' \<mapsto> ''a1'', ''collection'' \<mapsto> ''c7'']"]
  by simp

text \<open>
  C2 as the spec states it fails: adding an add-on a second time to a collection is
  refused, but not with the message "This add-on already belongs to the collection."
  ending in a full stop.
\<close>

theorem unique_together_message_counterexample:
  "fst (create_row CollectionAddonSerializer_unique
          [[''addon'' \<mapsto> ''a1'', ''collection'' \<mapsto> ''c7'']]
          [''addon'' \<mapsto> ''a1'', ''collection'' \<mapsto> ''c7''])
   \<noteq> Inl (ValidationError ''This add-on already belongs to the collection.'')"
  by (simp add: create_row_def CollectionAddonSerializer_unique_def
        UniqueTogetherValidator_def)

subsection \<open>Read-only fields\<close>

text \<open>
  C3. In each of the three \<^verbatim>\<open>Meta\<close> classes the read-only fields are the declared
  fields minus the declared writable fields; for the serializer with add-ons the writable
  fields are the ones inherited from \<^verbatim>\<open>CollectionSerializer.Meta\<close>. The three sets are
  written out.
\<close>

theorem read_only_fields_derived:
  "read_only_fields CollectionSerializer_Meta =
     set (fields' CollectionSerializer_Meta) - set (writeable_fields CollectionSerializer_Meta)
   \<and> read_only_fields CollectionSerializer_Meta =
     {''id'', ''uuid'', ''url'', ''addon_count'', ''author'', ''modified''}
   \<and> read_only_fields CollectionAddonSerializer_Meta =
     set (fields' CollectionAddonSerializer_Meta) -
     set (writeable_fields CollectionAddonSerializer_Meta)
   \<and> read_only_fields CollectionAddonSerializer_Meta = {''addon'', ''collection''}
   \<and> read_only_fields CollectionWithAddonsSerializer_Meta =
     set (fields' CollectionWithAddonsSerializer_Meta) -
     set (writeable_fields CollectionWithAddonsSerializer_Meta)
   \<and> read_only_fields CollectionWithAddonsSerializer_Meta =
     {''id'', ''uuid'', ''url'', ''addon_count'', ''author'', ''modified'', ''addons''}"
proof -
  have a: "read_only_fields CollectionSerializer_Meta =
      set (fields' CollectionSerializer_Meta) - set (writeable_fields CollectionSerializer_Meta)"
    by (simp add: CollectionSerializer_Meta_def Let_def)
  have b: "read_only_fields CollectionSerializer_Meta =
      {''id'', ''uuid'', ''url'', ''addon_count'', ''author'', ''modified''}"
    by (auto simp: CollectionSerializer_Meta_def Let_def)
  have c: "read_only_fields CollectionAddonSerializer_Meta =
      set (fields' CollectionAddonSerializer_Meta) -
      set (writeable_fields CollectionAddonSerializer_Meta)"
    by (simp add: CollectionAddonSerializer_Meta_def Let_def)
  have d: "read_only_fields CollectionAddonSerializer_Meta = {''addon'', ''collection''}"
    by (auto simp: CollectionAddonSerializer_Meta_def Let_def)
  have e: "read_only_fields CollectionWithAddonsSerializer_Meta =
      set (fields' CollectionWithAddonsSerializer_Meta) -
      set (writeable_fields CollectionWithAddonsSerializer_Meta)"
    by (simp add: CollectionWithAddonsSerializer_Meta_def Let_def)
  have f: "read_only_fields CollectionWithAddonsSerializer_Meta =
      {''id'', ''uuid'', ''url'', ''addon_count'', ''author'', ''modified'', ''addons''}"
    by (auto simp: CollectionWithAddonsSerializer_Meta_def CollectionSerializer_Meta_def Let_def)
  from a b c d e f show ?thesis by blast
qed

subsection \<open>Partial updates of a membership\<close>

text \<open>
  C4. On a partial update \<^verbatim>\<open>validate\<close> raises nothing; the validated data have no entry
  \<^verbatim>\<open>addon\<close> and have every other submitted entry as submitted. Applied to the stored
  row, they leave the row's add-on as it was and set every other submitted attribute.
\<close>

theorem validate_partial_drops_addon:
  assumes "distinct (map fst data)"
  shows "case validate True data of
           Inl e \<Rightarrow> False
         | Inr d \<Rightarrow>
             map_of d ''addon'' = None
             \<and> (\<forall>k. k \<noteq> ''addon'' \<longrightarrow> map_of d k = map_of data k)
             \<and> update inst d ''addon'' = inst ''addon''
             \<and> (\<forall>k v. k \<noteq> ''addon'' \<longrightarrow> map_of data k = Some v \<longrightarrow>
                    update inst d k = Some v)"
proof -
  let ?d = "AList.delete ''addon'' data"
  have v: "validate True data = Inr ?d"
    by (simp add: validate_def super_validate_def)
  have dist: "distinct (map fst ?d)"
    using assms by (rule distinct_delete)
  have m: "map_of ?d = (map_of data)(''addon'' := None)"
    by (rule delete_conv')
  show ?thesis
    by (simp add: v update_apply [OF dist] m)
qed

theorem validate_partial_drops_addon_witness:
  "distinct (map fst [(''addon'', ''other-addon''), (''comments'', ''nice'')])
   \<and> validate True [(''addon'', ''other-addon''), (''comments'', ''nice'')] =
       Inr [(''comments'', ''nice'')]
   \<and> update [''addon'' \<mapsto> ''first-addon'', ''comments'' \<mapsto> ''old'']
        [(''comments'', ''nice'')] ''addon'' = Some ''first-addon''
   \<and> update [''addon'' \<mapsto> ''first-addon'', ''comments'' \<mapsto> ''old'']
        [(''comments'', ''nice'')] ''comments'' = Some ''nice''"
proof -
  have h: "distinct (map fst [(''addon'', ''other-addon''), (''comments'', ''nice'')])"
    by simp
  show ?thesis
    using h validate_partial_drops_addon
              [OF h, of "[''addon'' \<mapsto> ''first-addon'', ''comments'' \<mapsto> ''old'']"]
    by (simp add: validate_def super_validate_def update_def)
qed

subsection \<open>The legacy field \<^verbatim>\<open>downloads\<close>\<close>

text \<open>
  C5. The representation of a membership has the key \<^verbatim>\<open>downloads\<close>, with the value 0,
  exactly when the context holds a request for which the gate
  \<^verbatim>\<open>collections-downloads-shim\<close> is active; otherwise the key is absent. Every other key
  is as the base class rendered it.
\<close>

theorem to_representation_downloads:
  "map_of (to_representation is_gate_active field_repr request inst) ''downloads'' =
     (if \<exists>req. request = Some req \<and> is_gate_active req ''collections-downloads-shim''
      then Some (JInt 0) else None)
   \<and> (\<forall>k. k \<noteq> ''downloads'' \<longrightarrow>
         map_of (to_representation is_gate_active field_repr request inst) k =
         map_of (super_to_representation field_repr inst) k)"
proof -
  have base: "map_of (super_to_representation field_repr inst) ''downloads'' = None"
    by (simp add: super_to_representation_def CollectionAddonSerializer_Meta_def Let_def)
  show ?thesis
    by (cases request) (simp_all add: to_representation_def Let_def base update_conv')
qed

theorem to_representation_downloads_witness:
  "map_of (to_representation (\<lambda>req gate. req = ''v3'') (\<lambda>f i. JString f) (Some ''v3'') ())
     ''downloads'' = Some (JInt 0)
   \<and> map_of (to_representation (\<lambda>req gate. req = ''v3'') (\<lambda>f i. JString f) (Some ''v4'') ())
     ''downloads'' = None
   \<and> map_of (to_representation (\<lambda>req gate. req = ''v3'') (\<lambda>f i. JString f) (Some ''v3'') ())
     ''notes'' = Some (JString ''notes'')"
  using to_representation_downloads
          [of "\<lambda>req gate. req = ''v3''" "\<lambda>f i. JString f" "Some ''v3''" "()"]
        to_representation_downloads
          [of "\<lambda>req gate. req = ''v3''" "\<lambda>f i. JString f" "Some ''v4''" "()"]
  by (simp add: super_to_representation_def CollectionAddonSerializer_Meta_def Let_def)

subsection \<open>Names\<close>

text \<open>
  C6. For a name given as a dictionary, \<^verbatim>\<open>validate_name\<close> validates every value by
  \<^verbatim>\<open>validate_name\<close> itself. When a value fails, the whole field fails, with the error of
  the first failing entry; when none fails, the dictionary is returned with the same
  locales and the values as they were validated. For a dictionary from locale to text
  the failing entries are those whose text is empty, all whitespace or denylisted.
\<close>

theorem validate_name_mapping:
  "validate_name blocked (Dict items) =
     (case find (\<lambda>(l, v). isl (validate_name blocked v)) items of
        None \<Rightarrow> Inr (Dict items)
      | Some (l, v) \<Rightarrow> validate_name blocked v)
   \<and> validate_name blocked (Dict (map (\<lambda>(l, s). (l, Text s)) entries)) =
     (case find (\<lambda>(l, s). (\<forall>c\<in>set s. isspace c) \<or> blocked s) entries of
        None \<Rightarrow> Inr (Dict (map (\<lambda>(l, s). (l, Text s)) entries))
      | Some (l, s) \<Rightarrow>
          (if \<forall>c\<in>set s. isspace c then Inl (ValidationError ''Name cannot be empty.'')
           else Inl (ValidationError ''This name cannot be used.'')))"
proof
  show "validate_name blocked (Dict items) =
     (case find (\<lambda>(l, v). isl (validate_name blocked v)) items of
        None \<Rightarrow> Inr (Dict items)
      | Some (l, v) \<Rightarrow> validate_name blocked v)"
    by (rule validate_name_dict_find)
next
  show "validate_name blocked (Dict (map (\<lambda>(l, s). (l, Text s)) entries)) =
     (case find (\<lambda>(l, s). (\<forall>c\<in>set s. isspace c) \<or> blocked s) entries of
        None \<Rightarrow> Inr (Dict (map (\<lambda>(l, s). (l, Text s)) entries))
      | Some (l, s) \<Rightarrow>
          (if \<forall>c\<in>set s. isspace c then Inl (ValidationError ''Name cannot be empty.'')
           else Inl (ValidationError ''This name cannot be used.'')))"
    by (simp add: validate_name_items_texts split: option.splits)
qed

theorem validate_name_mapping_witness:
  "validate_name (\<lambda>s. s = ''admin'')
     (Dict [(''en-US'', Text ''Mine''), (''fr'', Text ''admin''), (''de'', Text '' '')]) =
     Inl (ValidationError ''This name cannot be used.'')
   \<and> validate_name (\<lambda>s. s = ''admin'')
     (Dict [(''en-US'', Text ''Mine''), (''fr'', Text ''Les miennes'')]) =
     Inr (Dict [(''en-US'', Text ''Mine''), (''fr'', Text ''Les miennes'')])"
  using validate_name_mapping
          [of "\<lambda>s. s = ''admin''" "[]"
              "[(''en-US'', ''Mine''), (''fr'', ''admin''), (''de'', '' '')]"]
        validate_name_mapping
          [of "\<lambda>s. s = ''admin''" "[]"
              "[(''en-US'', ''Mine''), (''fr'', ''Les miennes'')]"]
  by (simp add: isspace_def)

text \<open>
  C7. For a name given as one text, \<^verbatim>\<open>validate_name\<close> raises "Name cannot be empty."
  exactly when the text is empty or consists of whitespace only, raises
  "This name cannot be used." exactly when the text is not so and is denylisted, and
  returns the text unchanged in every other case.
\<close>

theorem validate_name_text:
  "validate_name blocked (Text s) =
     (if \<forall>c\<in>set s. isspace c then Inl (ValidationError ''Name cannot be empty.'')
      else if blocked s then Inl (ValidationError ''This name cannot be used.'')
      else Inr (Text s))
   \<and> (validate_name blocked (Text s) = Inl (ValidationError ''Name cannot be empty.'')
        \<longleftrightarrow> (\<forall>c\<in>set s. isspace c))
   \<and> (validate_name blocked (Text s) = Inl (ValidationError ''This name cannot be used.'')
        \<longleftrightarrow> \<not> (\<forall>c\<in>set s. isspace c) \<and> blocked s)
   \<and> (validate_name blocked (Text s) = Inr (Text s)
        \<longleftrightarrow> \<not> (\<forall>c\<in>set s. isspace c) \<and> \<not> blocked s)"
  by (simp add: strip_empty_iff)

theorem validate_name_text_witness:
  "validate_name (\<lambda>s. s = ''admin'') (Text '''') =
     Inl (ValidationError ''Name cannot be empty.'')
   \<and> validate_name (\<lambda>s. s = ''admin'') (Text [CHR '' '', CHR 0x09, CHR 0x0A]) =
     Inl (ValidationError ''Name cannot be empty.'')
   \<and> validate_name (\<lambda>s. s = ''admin'') (Text ''admin'') =
     Inl (ValidationError ''This name cannot be used.'')
   \<and> validate_name (\<lambda>s. s = ''admin'') (Text '' My list '') = Inr (Text '' My list '')"
  using validate_name_text [of "\<lambda>s. s = ''admin''" "''''"]
        validate_name_text [of "\<lambda>s. s = ''admin''" "[CHR '' '', CHR 0x09, CHR 0x0A]"]
        validate_name_text [of "\<lambda>s. s = ''admin''" "''admin''"]
        validate_name_text [of "\<lambda>s. s = ''admin''" "'' My list ''"]
  by (simp add: isspace_def)

subsection \<open>Descriptions\<close>

text \<open>
  C8. \<^verbatim>\<open>validate_description\<close> raises "No links are allowed." exactly when the link
  detector finds a link in the text of the value after \<^verbatim>\<open>clean_nl\<close> has been applied to
  it, and accepts the value exactly when it finds none; for a value that is one text,
  the text examined is the value itself.
\<close>

theorem validate_description_links:
  "(validate_description clean_nl has_links dict_repr v =
      Inl (ValidationError ''No links are allowed.'')
      \<longleftrightarrow> has_links (clean_nl (text_type dict_repr v)))
   \<and> ((\<exists>r. validate_description clean_nl has_links dict_repr v = Inr r)
      \<longleftrightarrow> \<not> has_links (clean_nl (text_type dict_repr v)))
   \<and> (validate_description clean_nl has_links dict_repr (Text s) =
      Inl (ValidationError ''No links are allowed.'')
      \<longleftrightarrow> has_links (clean_nl s))"
  by (simp add: validate_description_def text_type_def)

theorem validate_description_links_witness:
  "validate_description (filter (\<lambda>c. c \<noteq> CHR 0x0A)) (\<lambda>s. take 4 s = ''http'') (\<lambda>d. ''{}'')
     (Text [CHR 0x0A, CHR ''h'', CHR ''t'', CHR ''t'', CHR ''p'']) =
     Inl (ValidationError ''No links are allowed.'')
   \<and> validate_description (filter (\<lambda>c. c \<noteq> CHR 0x0A)) (\<lambda>s. take 4 s = ''http'') (\<lambda>d. ''{}'')
     (Text ''plain'') = Inr (Text ''plain'')"
  using validate_description_links
          [of "filter (\<lambda>c. c \<noteq> CHR 0x0A)" "\<lambda>s. take 4 s = ''http''" "\<lambda>d. ''{}''"
              "Text [CHR 0x0A, CHR ''h'', CHR ''t'', CHR ''t'', CHR ''p'']"
              "[CHR 0x0A, CHR ''h'', CHR ''t'', CHR ''t'', CHR ''p'']"]
        validate_description_links
          [of "filter (\<lambda>c. c \<noteq> CHR 0x0A)" "\<lambda>s. take 4 s = ''http''" "\<lambda>d. ''{}''"
              "Text ''plain''" "''plain''"]
  by (simp add: validate_description_def text_type_def)

text \<open>
  C10. Whatever \<^verbatim>\<open>validate_description\<close> accepts it returns as it was given: the text
  cleaned of newlines serves the link detection only.
\<close>

theorem validate_description_returns_input:
  "validate_description clean_nl has_links dict_repr v = Inr r \<Longrightarrow> r = v"
  by (simp add: validate_description_def split: if_splits)

theorem validate_description_returns_input_witness:
  "validate_description (filter (\<lambda>c. c \<noteq> CHR 0x0A)) (\<lambda>s. take 4 s = ''http'') (\<lambda>d. ''{}'')
     (Text [CHR ''a'', CHR 0x0A, CHR ''b'']) = Inr (Text [CHR ''a'', CHR 0x0A, CHR ''b''])
   \<and> filter (\<lambda>c. c \<noteq> CHR 0x0A) [CHR ''a'', CHR 0x0A, CHR ''b''] \<noteq> [CHR ''a'', CHR 0x0A, CHR ''b'']"
proof -
  let ?v = "Text [CHR ''a'', CHR 0x0A, CHR ''b'']"
  have h: "validate_description (filter (\<lambda>c. c \<noteq> CHR 0x0A)) (\<lambda>s. take 4 s = ''http'')
             (\<lambda>d. ''{}'') ?v = Inr ?v"
    by (simp add: validate_description_def text_type_def)
  show ?thesis
    using h validate_description_returns_input [OF h]
    by simp
qed

subsection \<open>Slugs\<close>

text \<open>
  C9. \<^verbatim>\<open>validate_slug\<close> raises "The custom URL must consist of letters, numbers,
  underscores or hyphens." exactly when the value is not a slug (one or more letters,
  digits, underscores and hyphens, in either case), raises "This custom URL cannot be
  used." when the value is a slug and is denylisted, and returns the value otherwise.
  The value \<^verbatim>\<open>my-collection_1\<close> is a slug and \<^verbatim>\<open>my collection!\<close> is rejected with the
  first message.
\<close>

theorem validate_slug_cases:
  "validate_slug blocked v =
     (if \<not> (v \<noteq> [] \<and> (\<forall>c\<in>set v. is_upper c \<or> is_lower c \<or> is_digit c
                              \<or> c = CHR ''_'' \<or> c = CHR ''-''))
      then Inl (ValidationError
             ''The custom URL must consist of letters, numbers, underscores or hyphens.'')
      else if blocked v then Inl (ValidationError ''This custom URL cannot be used.'')
      else Inr v)
   \<and> validate_slug blocked ''my-collection_1'' =
     (if blocked ''my-collection_1'' then Inl (ValidationError ''This custom URL cannot be used.'')
      else Inr ''my-collection_1'')
   \<and> validate_slug blocked ''my collection!'' =
     Inl (ValidationError
       ''The custom URL must consist of letters, numbers, underscores or hyphens.'')"
proof -
  have g: "slug_grammar False s \<longleftrightarrow>
      s \<noteq> [] \<and> (\<forall>c\<in>set s. is_upper c \<or> is_lower c \<or> is_digit c
                            \<or> c = CHR ''_'' \<or> c = CHR ''-'')" for s
    by (simp add: slug_grammar_def slug_char_def list_all_iff)
  have a: "slug_grammar False ''my-collection_1''"
    by (simp add: slug_grammar_def slug_char_def is_upper_def is_lower_def is_digit_def)
  have b: "\<not> slug_grammar False ''my collection!''"
    by (simp add: slug_grammar_def slug_char_def is_upper_def is_lower_def is_digit_def)
  have c: "validate_slug blocked s =
     (if \<not> slug_grammar False s
      then Inl (ValidationError
             ''The custom URL must consist of letters, numbers, underscores or hyphens.'')
      else if blocked s then Inl (ValidationError ''This custom URL cannot be used.'')
      else Inr s)" for s
    by (simp add: validate_slug_def slug_validator_def)
  show ?thesis
    using a b by (simp add: c g [symmetric])
qed

theorem validate_slug_cases_witness:
  "validate_slug (\<lambda>s. s = ''admin'') ''My-Collection_1'' = Inr ''My-Collection_1''
   \<and> validate_slug (\<lambda>s. s = ''admin'') ''admin'' =
       Inl (ValidationError ''This custom URL cannot be used.'')
   \<and> validate_slug (\<lambda>s. s = ''admin'') ''my collection!'' =
       Inl (ValidationError
         ''The custom URL must consist of letters, numbers, underscores or hyphens.'')"
  using validate_slug_cases [of "\<lambda>s. s = ''admin''" "''My-Collection_1''"]
        validate_slug_cases [of "\<lambda>s. s = ''admin''" "''admin''"]
  by (simp add: is_upper_def is_lower_def is_digit_def)

end
